theory Spec2Isabelle
  imports Main "HOL-Library.Word"
begin

section \<open>JavaScript strings\<close>

text \<open>
  A JavaScript string is a sequence of UTF-16 code units. Literals of the source are
  written as HOL strings and converted with \<open>js\<close>; all of them are ASCII.
\<close>

type_synonym jsstring = "16 word list"

definition js :: "string \<Rightarrow> jsstring" where
  "js s = map (\<lambda>c. of_nat (of_char c)) s"

definition LF :: jsstring where
  "LF = [0x0A]"

text \<open>
  \<open>String.prototype.trim\<close> strips the code units that ECMAScript calls WhiteSpace
  (TAB, VT, FF, ZWNBSP and the Unicode space separators) or LineTerminator
  (LF, CR, LS, PS) from both ends.
\<close>

definition isWhiteSpace :: "16 word \<Rightarrow> bool" where
  "isWhiteSpace c \<longleftrightarrow>
     c = 0x0009 \<or> c = 0x000A \<or> c = 0x000B \<or> c = 0x000C \<or> c = 0x000D \<or>
     c = 0x0020 \<or> c = 0x00A0 \<or> c = 0x1680 \<or> (0x2000 \<le> c \<and> c \<le> 0x200A) \<or>
     c = 0x2028 \<or> c = 0x2029 \<or> c = 0x202F \<or> c = 0x205F \<or> c = 0x3000 \<or> c = 0xFEFF"

definition trim :: "jsstring \<Rightarrow> jsstring" where
  "trim s = rev (dropWhile isWhiteSpace (rev (dropWhile isWhiteSpace s)))"

text \<open>\<open>Array.prototype.join\<close> on an array of strings.\<close>

fun join :: "jsstring \<Rightarrow> jsstring list \<Rightarrow> jsstring" where
  "join sep [] = []"
| "join sep [x] = x"
| "join sep (x # y # ys) = x @ sep @ join sep (y # ys)"

section \<open>Types of the application\<close>

text \<open>
  Modelled from the spec: the module \<open>types\<close> that declares \<open>Language\<close> and
  \<open>InputMode\<close> is absent. The two types are closed enumerations; their values are the
  ones \<open>App\<close> uses (\<open>'arabic'\<close>, \<open>'english'\<close>; \<open>'text'\<close>, \<open>'file'\<close>).
\<close>

datatype Language = Arabic | English

datatype InputMode = Text | File

fun language_string :: "Language \<Rightarrow> jsstring" where
  "language_string Arabic = js ''arabic''"
| "language_string English = js ''english''"

text \<open>
  A thrown value: an instance of \<open>Error\<close> (or of a subclass) with its message, or
  anything else.
\<close>

datatype thrown = Error jsstring | Non_Error

section \<open>The translation client (geminiService)\<close>

record gen_request =
  model :: jsstring
  contents :: jsstring
  thinkingBudget :: nat

text \<open>
  What \<open>ai.models.generateContent\<close> does with a request: the promise rejects with some
  value, or it resolves to a response whose \<open>text\<close> is a string or \<open>undefined\<close>.
\<close>

datatype gen_outcome = Rejects thrown | Resolves "jsstring option"

text \<open>What \<open>console.error\<close> receives in the \<open>catch\<close> block.\<close>

datatype failure_cause = Service_rejected thrown | Text_undefined

record translate_run =
  calls :: "gen_request list"
  logged :: "failure_cause list"
  outcome :: "thrown + jsstring"

definition prompt :: "jsstring \<Rightarrow> Language \<Rightarrow> Language \<Rightarrow> jsstring" where
  "prompt text sourceLang targetLang =
     LF @ js ''    You are an expert translator. Translate the following text from ''
        @ language_string sourceLang @ js '' to '' @ language_string targetLang @ js ''.''
   @ LF @ js ''    Do not add any commentary, preamble, or explanation. Only return the translated text.''
   @ LF @ js ''    Preserve the original formatting (like line breaks) as much as possible.''
   @ LF
   @ LF @ js ''    Text to translate:''
   @ LF @ js ''    ---''
   @ LF @ js ''    '' @ text
   @ LF @ js ''    ---''
   @ LF @ js ''  ''"

definition translate_failed :: thrown where
  "translate_failed = Error (js ''Failed to translate text. Please check the API key and try again.'')"

definition translateText ::
  "(gen_request \<Rightarrow> gen_outcome) \<Rightarrow> jsstring \<Rightarrow> Language \<Rightarrow> Language \<Rightarrow> translate_run" where
  "translateText generateContent text sourceLang targetLang =
     (if trim text = [] then \<lparr>calls = [], logged = [], outcome = Inr []\<rparr>
      else
        let request = \<lparr>model = js ''gemini-2.5-flash'',
                       contents = prompt text sourceLang targetLang,
                       thinkingBudget = 0\<rparr>
        in case generateContent request of
             Resolves (Some t) \<Rightarrow>
               \<lparr>calls = [request], logged = [], outcome = Inr (trim t)\<rparr>
           | Resolves None \<Rightarrow>
               \<lparr>calls = [request], logged = [Text_undefined], outcome = Inl translate_failed\<rparr>
           | Rejects e \<Rightarrow>
               \<lparr>calls = [request], logged = [Service_rejected e], outcome = Inl translate_failed\<rparr>)"

section \<open>The interaction controller (App)\<close>

text \<open>The nine \<open>useState\<close> cells of the component, with their initial values.\<close>

record app_state =
  sourceLang :: Language
  targetLang :: Language
  inputMode :: InputMode
  inputText :: jsstring
  translatedText :: jsstring
  isLoading :: bool
  error :: "jsstring option"
  fileName :: "jsstring option"
  copySuccess :: bool

definition initial_state :: app_state where
  "initial_state =
     \<lparr>sourceLang = Arabic, targetLang = English, inputMode = Text, inputText = [],
      translatedText = [], isLoading = False, error = None, fileName = None,
      copySuccess = False\<rparr>"

subsection \<open>handleTranslate\<close>

text \<open>
  The part of \<open>handleTranslate\<close> that runs before the \<open>await\<close>: the new state, and
  whether \<open>translateText\<close> is called.
\<close>

definition handleTranslate_start :: "app_state \<Rightarrow> app_state \<times> bool" where
  "handleTranslate_start s =
     (if trim (inputText s) = [] then (s\<lparr>translatedText := []\<rparr>, False)
      else (s\<lparr>isLoading := True, error := None, translatedText := []\<rparr>, True))"

text \<open>
  The part after the \<open>await\<close>, on the state of that moment: \<open>try\<close> or \<open>catch\<close>, then
  \<open>finally\<close>.
\<close>

definition handleTranslate_settle :: "thrown + jsstring \<Rightarrow> app_state \<Rightarrow> app_state" where
  "handleTranslate_settle r s =
     (case r of
        Inr result \<Rightarrow> s\<lparr>translatedText := result\<rparr>
      | Inl (Error message) \<Rightarrow> s\<lparr>error := Some message\<rparr>
      | Inl Non_Error \<Rightarrow> s\<lparr>error := Some (js ''An unknown error occurred.'')\<rparr>)
     \<lparr>isLoading := False\<rparr>"

text \<open>A translate action that nothing interrupts.\<close>

definition handleTranslate :: "(gen_request \<Rightarrow> gen_outcome) \<Rightarrow> app_state \<Rightarrow> app_state" where
  "handleTranslate generateContent s =
     (let (s1, called) = handleTranslate_start s
      in if called
         then handleTranslate_settle
                (outcome (translateText generateContent (inputText s) (sourceLang s) (targetLang s)))
                s1
         else s1)"

subsection \<open>handleSwapLanguages\<close>

definition handleSwapLanguages :: "app_state \<Rightarrow> app_state" where
  "handleSwapLanguages s =
     s\<lparr>sourceLang := targetLang s, targetLang := sourceLang s,
       inputText := translatedText s, translatedText := inputText s\<rparr>"

subsection \<open>handleCopy\<close>

datatype clipboard_outcome = Write_resolves | Write_rejects

text \<open>
  \<open>handleCopy\<close> up to the moment the clipboard promise settles: the state, and the delay
  (in ms) of the timeout that the \<open>then\<close> callback schedules, if it runs. A rejected
  write has no handler.
\<close>

definition handleCopy ::
  "(jsstring \<Rightarrow> clipboard_outcome) \<Rightarrow> app_state \<Rightarrow> app_state \<times> nat option" where
  "handleCopy writeText s =
     (if translatedText s \<noteq> [] then
        (case writeText (translatedText s) of
           Write_resolves \<Rightarrow> (s\<lparr>copySuccess := True\<rparr>, Some 2000)
         | Write_rejects \<Rightarrow> (s, None))
      else (s, None))"

text \<open>A clipboard that refuses every write (no permission, document not focused).\<close>

definition clipboard_denied :: "jsstring \<Rightarrow> clipboard_outcome" where
  "clipboard_denied t = Write_rejects"

text \<open>The callback of that timeout.\<close>

definition handleCopy_timeout :: "app_state \<Rightarrow> app_state" where
  "handleCopy_timeout s = s\<lparr>copySuccess := False\<rparr>"

subsection \<open>handleFileChange\<close>

record selected_file =
  file_name :: jsstring
  file_size :: nat
  file_type :: jsstring

text \<open>
  The synchronous part of \<open>handleFileChange\<close>: the new state, and the file handed to
  \<open>reader.readAsArrayBuffer\<close>, if any.
\<close>

definition handleFileChange ::
  "selected_file option \<Rightarrow> app_state \<Rightarrow> app_state \<times> selected_file option" where
  "handleFileChange files s =
     (case files of
        None \<Rightarrow> (s, None)
      | Some file \<Rightarrow>
          let s1 = s\<lparr>error := None, fileName := None, inputText := [], translatedText := []\<rparr>
          in if file_size file > 100 * 1024 * 1024
             then (s1\<lparr>error := Some (js ''File size exceeds 100MB limit.'')\<rparr>, None)
             else if file_type file \<noteq> js ''application/pdf''
             then (s1\<lparr>error := Some (js ''Only PDF files are supported.'')\<rparr>, None)
             else (s1\<lparr>fileName := Some (file_name file), isLoading := True\<rparr>, Some file))"

text \<open>
  The PDF library, as far as the handler uses it: \<open>getDocument\<close> rejects or gives a
  document with its pages; for each page \<open>getPage\<close> or \<open>getTextContent\<close> may reject,
  or the page gives the \<open>str\<close> of its text items.
\<close>

datatype page = Page "jsstring list" | GetPage_rejects | GetTextContent_rejects

datatype document = Document "page list" | GetDocument_rejects

text \<open>The \<open>for\<close> loop over the pages; \<open>None\<close> when something in it throws.\<close>

fun extractPages :: "page list \<Rightarrow> jsstring \<Rightarrow> jsstring option" where
  "extractPages [] fullText = Some fullText"
| "extractPages (Page items # pages) fullText =
     extractPages pages (fullText @ (join (js '' '') items @ LF @ LF))"
| "extractPages (_ # pages) fullText = None"

definition reader_onload ::
  "(8 word list \<Rightarrow> document) option \<Rightarrow> 8 word list option \<Rightarrow> app_state \<Rightarrow> app_state" where
  "reader_onload pdfjsLib result s =
     (case (result, pdfjsLib) of
        (Some buffer, Some getDocument) \<Rightarrow>
          (case getDocument buffer of
             Document pages \<Rightarrow>
               (case extractPages pages [] of
                  Some fullText \<Rightarrow> s\<lparr>inputText := trim fullText, inputMode := Text\<rparr>
                | None \<Rightarrow> s\<lparr>error := Some (js ''Failed to extract text from PDF. The file might be corrupted, password-protected, or contain only images.'')\<rparr>)
           | GetDocument_rejects \<Rightarrow>
               s\<lparr>error := Some (js ''Failed to extract text from PDF. The file might be corrupted, password-protected, or contain only images.'')\<rparr>)
          \<lparr>isLoading := False\<rparr>
      | _ \<Rightarrow> s\<lparr>error := Some (js ''Failed to read file or PDF library is not loaded.''),
               isLoading := False\<rparr>)"

definition reader_onerror :: "app_state \<Rightarrow> app_state" where
  "reader_onerror s =
     s\<lparr>error := Some (js ''An error occurred while reading the file.''), isLoading := False\<rparr>"

subsection \<open>The callbacks other than those of the copy action\<close>

datatype event =
    Edit_text jsstring
  | Switch_mode InputMode
  | Swap_languages
  | Translate_clicked
  | Translate_settled "thrown + jsstring"
  | File_chosen "selected_file option"
  | Reader_loaded "(8 word list \<Rightarrow> document) option" "8 word list option"
  | Reader_failed

fun dispatch :: "event \<Rightarrow> app_state \<Rightarrow> app_state" where
  "dispatch (Edit_text v) s = s\<lparr>inputText := v\<rparr>"
| "dispatch (Switch_mode m) s = s\<lparr>inputMode := m\<rparr>"
| "dispatch Swap_languages s = handleSwapLanguages s"
| "dispatch Translate_clicked s = fst (handleTranslate_start s)"
| "dispatch (Translate_settled r) s = handleTranslate_settle r s"
| "dispatch (File_chosen files) s = fst (handleFileChange files s)"
| "dispatch (Reader_loaded pdfjsLib result) s = reader_onload pdfjsLib result s"
| "dispatch Reader_failed s = reader_onerror s"

section \<open>Facts about trimming\<close>

lemma trim_empty_iff: "trim s = [] \<longleftrightarrow> list_all isWhiteSpace s"
proof
  assume e: "trim s = []"
  show "list_all isWhiteSpace s"
  proof (cases "dropWhile isWhiteSpace s = []")
    case True
    then show ?thesis by (simp add: dropWhile_eq_Nil_conv list_all_iff)
  next
    case False
    then have "\<not> isWhiteSpace (hd (dropWhile isWhiteSpace s))"
      by (rule hd_dropWhile)
    moreover have "hd (dropWhile isWhiteSpace s) \<in> set (dropWhile isWhiteSpace s)"
      using False by simp
    moreover have "\<forall>c \<in> set (dropWhile isWhiteSpace s). isWhiteSpace c"
    proof -
      from e have "dropWhile isWhiteSpace (rev (dropWhile isWhiteSpace s)) = []"
        by (simp add: trim_def)
      then have "\<forall>c \<in> set (rev (dropWhile isWhiteSpace s)). isWhiteSpace c"
        by (simp only: dropWhile_eq_Nil_conv)
      then show ?thesis by (simp only: set_rev)
    qed
    ultimately have False by blast
    then show ?thesis ..
  qed
next
  assume "list_all isWhiteSpace s"
  then have "dropWhile isWhiteSpace s = []"
    by (simp add: dropWhile_eq_Nil_conv list_all_iff)
  then show "trim s = []" by (simp add: trim_def del: dropWhile_eq_Nil_conv)
qed

lemma trim_decompose:
  "s = takeWhile isWhiteSpace s @ trim s
         @ rev (takeWhile isWhiteSpace (rev (dropWhile isWhiteSpace s)))"
proof -
  let ?d = "dropWhile isWhiteSpace s"
  have "rev ?d = takeWhile isWhiteSpace (rev ?d) @ dropWhile isWhiteSpace (rev ?d)"
    by simp
  then have "rev (rev ?d) = rev (takeWhile isWhiteSpace (rev ?d) @ dropWhile isWhiteSpace (rev ?d))"
    by (rule arg_cong)
  then have "?d = trim s @ rev (takeWhile isWhiteSpace (rev ?d))"
    by (simp only: rev_append rev_rev_ident trim_def)
  moreover have "s = takeWhile isWhiteSpace s @ ?d" by simp
  ultimately show ?thesis by metis
qed

lemma trim_first: "trim s \<noteq> [] \<Longrightarrow> \<not> isWhiteSpace (hd (trim s))"
proof -
  let ?d = "dropWhile isWhiteSpace s"
  let ?e = "dropWhile isWhiteSpace (rev ?d)"
  assume n: "trim s \<noteq> []"
  have dn: "?d \<noteq> []"
  proof
    assume "?d = []"
    then have "trim s = []" by (simp add: trim_def del: dropWhile_eq_Nil_conv)
    with n show False ..
  qed
  have en: "?e \<noteq> []" using n by (simp add: trim_def)
  have "rev ?d = takeWhile isWhiteSpace (rev ?d) @ ?e" by simp
  then have "?d = rev ?e @ rev (takeWhile isWhiteSpace (rev ?d))"
    by (metis rev_append rev_rev_ident)
  then have "hd ?d = hd (rev ?e)" using en by (metis hd_append2 rev_is_Nil_conv)
  moreover have "\<not> isWhiteSpace (hd ?d)" using dn by (rule hd_dropWhile)
  ultimately show ?thesis by (simp add: trim_def)
qed

lemma trim_last: "trim s \<noteq> [] \<Longrightarrow> \<not> isWhiteSpace (last (trim s))"
proof -
  let ?e = "dropWhile isWhiteSpace (rev (dropWhile isWhiteSpace s))"
  assume "trim s \<noteq> []"
  then have en: "?e \<noteq> []" by (simp add: trim_def)
  then have "\<not> isWhiteSpace (hd ?e)" by (rule hd_dropWhile)
  then show ?thesis using en by (simp add: trim_def last_rev)
qed

section \<open>Facts about the handlers\<close>

lemma translateText_Inl:
  "outcome (translateText generateContent text from_lang to_lang) = Inl e \<Longrightarrow> e = translate_failed"
  by (auto simp: translateText_def Let_def split: if_splits gen_outcome.splits option.splits)

lemma extractPages_all:
  "extractPages (map Page itemss) fullText
     = Some (fullText @ concat (map (\<lambda>items. join (js '' '') items @ LF @ LF) itemss))"
  by (induction itemss arbitrary: fullText) simp_all

lemma dispatch_copySuccess: "copySuccess (dispatch e s) = copySuccess s"
  by (cases e)
     (auto simp: handleSwapLanguages_def handleTranslate_start_def handleTranslate_settle_def
        handleFileChange_def reader_onload_def reader_onerror_def Let_def
        split: sum.splits thrown.splits option.splits document.splits)

lemma fold_dispatch_copySuccess: "copySuccess (fold dispatch es s) = copySuccess s"
  by (induction es arbitrary: s) (simp_all add: dispatch_copySuccess)

section \<open>Properties of the translation client\<close>

text \<open>
  C1: when the text is empty or consists of whitespace only, \<open>translateText\<close> returns the
  empty string and makes no call to the generation service, whatever the service is.
\<close>

theorem translateText_blank:
  "list_all isWhiteSpace text \<Longrightarrow>
     outcome (translateText generateContent text from_lang to_lang) = Inr []
     \<and> calls (translateText generateContent text from_lang to_lang) = []"
  by (simp add: translateText_def trim_empty_iff)

theorem translateText_blank_witness:
  "list_all isWhiteSpace (js '' '' @ LF)
   \<and> outcome (translateText (\<lambda>r. Resolves (Some (js ''x''))) (js '' '' @ LF) Arabic English) = Inr []
   \<and> calls (translateText (\<lambda>r. Resolves (Some (js ''x''))) (js '' '' @ LF) Arabic English) = []"
proof -
  have h: "list_all isWhiteSpace (js '' '' @ LF)"
    by (simp add: js_def LF_def isWhiteSpace_def)
  show ?thesis
    using h translateText_blank [OF h, of "\<lambda>r. Resolves (Some (js ''x''))" Arabic English]
    by simp
qed

text \<open>
  C6: whenever the call to the generation service fails (the promise rejects with any
  value, or the response carries no text), \<open>translateText\<close> throws one and the same
  \<open>Error\<close> with a fixed message; the underlying cause only goes to the log.
\<close>

theorem translateText_generic_failure:
  "\<not> list_all isWhiteSpace text \<Longrightarrow>
   generateContent \<lparr>model = js ''gemini-2.5-flash'',
                     contents = prompt text from_lang to_lang,
                     thinkingBudget = 0\<rparr> = r \<Longrightarrow>
   r = Resolves None \<or> (\<exists>e. r = Rejects e) \<Longrightarrow>
     outcome (translateText generateContent text from_lang to_lang)
       = Inl (Error (js ''Failed to translate text. Please check the API key and try again.''))
     \<and> logged (translateText generateContent text from_lang to_lang)
       = [case r of Rejects e \<Rightarrow> Service_rejected e | Resolves _ \<Rightarrow> Text_undefined]"
  by (auto simp: translateText_def trim_empty_iff translate_failed_def Let_def)

theorem translateText_generic_failure_witness:
  "outcome (translateText (\<lambda>r. Rejects (Error (js ''503''))) (js ''hi'') English Arabic)
     = Inl (Error (js ''Failed to translate text. Please check the API key and try again.''))
   \<and> outcome (translateText (\<lambda>r. Rejects Non_Error) (js ''hi'') English Arabic)
     = Inl (Error (js ''Failed to translate text. Please check the API key and try again.''))
   \<and> outcome (translateText (\<lambda>r. Resolves None) (js ''hi'') English Arabic)
     = Inl (Error (js ''Failed to translate text. Please check the API key and try again.''))"
proof -
  have h: "\<not> list_all isWhiteSpace (js ''hi'')"
    by (simp add: js_def isWhiteSpace_def)
  show ?thesis
    using translateText_generic_failure
            [OF h refl, of "\<lambda>r. Rejects (Error (js ''503''))" English Arabic]
          translateText_generic_failure
            [OF h refl, of "\<lambda>r. Rejects Non_Error" English Arabic]
          translateText_generic_failure
            [OF h refl, of "\<lambda>r. Resolves None" English Arabic]
    by simp
qed

text \<open>
  C7: when the generation service answers with a text, \<open>translateText\<close> returns that text
  with the whitespace at its two ends removed and nothing else changed: the text is a run
  of whitespace, then the returned string, then a run of whitespace, and the returned
  string neither starts nor ends with whitespace.
\<close>

theorem translateText_success_trimmed:
  "\<not> list_all isWhiteSpace text \<Longrightarrow>
   generateContent \<lparr>model = js ''gemini-2.5-flash'',
                     contents = prompt text from_lang to_lang,
                     thinkingBudget = 0\<rparr> = Resolves (Some t) \<Longrightarrow>
     (\<exists>res. outcome (translateText generateContent text from_lang to_lang) = Inr res
        \<and> res = trim t
        \<and> (\<exists>before after. t = before @ res @ after
              \<and> list_all isWhiteSpace before \<and> list_all isWhiteSpace after)
        \<and> (res \<noteq> [] \<longrightarrow> \<not> isWhiteSpace (hd res) \<and> \<not> isWhiteSpace (last res)))"
proof -
  assume nb: "\<not> list_all isWhiteSpace text"
    and g: "generateContent \<lparr>model = js ''gemini-2.5-flash'',
                     contents = prompt text from_lang to_lang,
                     thinkingBudget = 0\<rparr> = Resolves (Some t)"
  have o: "outcome (translateText generateContent text from_lang to_lang) = Inr (trim t)"
    using nb g by (simp add: translateText_def trim_empty_iff Let_def)
  have b: "list_all isWhiteSpace (takeWhile isWhiteSpace t)"
    by (simp add: list_all_iff) (meson set_takeWhileD)
  have a: "list_all isWhiteSpace (rev (takeWhile isWhiteSpace (rev (dropWhile isWhiteSpace t))))"
    by (simp add: list_all_iff) (meson set_takeWhileD)
  have d: "\<exists>before after. t = before @ trim t @ after
              \<and> list_all isWhiteSpace before \<and> list_all isWhiteSpace after"
    using trim_decompose [of t] a b by blast
  show ?thesis using o d trim_first [of t] trim_last [of t] by simp
qed

theorem translateText_success_trimmed_witness:
  "outcome (translateText (\<lambda>r. Resolves (Some (LF @ js '' Hello world '' @ LF)))
              (js ''hi'') English Arabic) = Inr (js ''Hello world'')"
proof -
  have h: "\<not> list_all isWhiteSpace (js ''hi'')"
    by (simp add: js_def isWhiteSpace_def)
  have t: "trim (LF @ js '' Hello world '' @ LF) = js ''Hello world''"
    by (simp add: trim_def js_def LF_def isWhiteSpace_def)
  show ?thesis
    using translateText_success_trimmed
            [of "js ''hi''" "\<lambda>r. Resolves (Some (LF @ js '' Hello world '' @ LF))"
                English Arabic "LF @ js '' Hello world '' @ LF", OF h refl]
          t
    by auto
qed

section \<open>Properties of the interaction controller\<close>

text \<open>
  C2: \<open>handleSwapLanguages\<close> exchanges the source language with the target language
  and the input text with the translated text, leaves every other cell as it was, and
  applied twice gives back the state it started from.
\<close>

theorem handleSwapLanguages_exchange:
  "sourceLang (handleSwapLanguages s) = targetLang s
   \<and> targetLang (handleSwapLanguages s) = sourceLang s
   \<and> inputText (handleSwapLanguages s) = translatedText s
   \<and> translatedText (handleSwapLanguages s) = inputText s
   \<and> inputMode (handleSwapLanguages s) = inputMode s
   \<and> isLoading (handleSwapLanguages s) = isLoading s
   \<and> error (handleSwapLanguages s) = error s
   \<and> fileName (handleSwapLanguages s) = fileName s
   \<and> copySuccess (handleSwapLanguages s) = copySuccess s
   \<and> app_state.more (handleSwapLanguages s) = app_state.more s
   \<and> handleSwapLanguages (handleSwapLanguages s) = s"
  by (simp add: handleSwapLanguages_def)

text \<open>
  C3, as stated, fails: for the page texts A, B, C the loop does not leave
  \<open>"A\n\nB\n\nC"\<close> in \<open>fullText\<close> before the trim.
\<close>

theorem extract_three_pages_counterexample:
  "extractPages [Page [js ''A''], Page [js ''B''], Page [js ''C'']] []
     \<noteq> Some (js ''A'' @ LF @ LF @ js ''B'' @ LF @ LF @ js ''C'')"
  by (simp add: js_def LF_def)

text \<open>
  C3, amended: the loop appends the blank-line separator after every page, the last one
  included, so for three pages the text before the trim is the three page texts each
  followed by \<open>"\n\n"\<close>; for A, B, C that is \<open>"A\n\nB\n\nC\n\n"\<close>, and
  trimming it gives \<open>"A\n\nB\n\nC"\<close>.
\<close>

theorem extract_three_pages:
  "extractPages [Page [a], Page [b], Page [c]] [] = Some (a @ LF @ LF @ b @ LF @ LF @ c @ LF @ LF)
   \<and> extractPages [Page [js ''A''], Page [js ''B''], Page [js ''C'']] []
       = Some (js ''A'' @ LF @ LF @ js ''B'' @ LF @ LF @ js ''C'' @ LF @ LF)
   \<and> trim (js ''A'' @ LF @ LF @ js ''B'' @ LF @ LF @ js ''C'' @ LF @ LF)
       = js ''A'' @ LF @ LF @ js ''B'' @ LF @ LF @ js ''C''"
  by (simp add: js_def LF_def trim_def isWhiteSpace_def)

text \<open>
  C4, as stated, fails: an input of one space is not empty, yet \<open>handleTranslate\<close>
  returns at its guard without setting \<open>isLoading\<close> and without clearing the
  error.
\<close>

theorem handleTranslate_nonempty_counterexample:
  "inputText (initial_state\<lparr>inputText := js '' '', error := Some (js ''old'')\<rparr>) \<noteq> []
   \<and> \<not> isLoading (fst (handleTranslate_start
                          (initial_state\<lparr>inputText := js '' '', error := Some (js ''old'')\<rparr>)))
   \<and> error (fst (handleTranslate_start
                          (initial_state\<lparr>inputText := js '' '', error := Some (js ''old'')\<rparr>)))
       = Some (js ''old'')"
  by (simp add: handleTranslate_start_def initial_state_def trim_def js_def isWhiteSpace_def)

text \<open>
  C4, amended: when the input text has a character that is not whitespace,
  \<open>handleTranslate\<close> first sets \<open>isLoading\<close>, clears the error and the translated
  text and calls \<open>translateText\<close>; if that call fails, the final state has
  \<open>isLoading = false\<close>, an empty translated text and the (non-empty) failure message as
  error. \<open>isLoading\<close> is false after the call settles, however it settles and whatever
  the state is by then, and a failed call leaves the translated text of that state as
  it is.
\<close>

theorem handleTranslate_failure:
  "\<not> list_all isWhiteSpace (inputText s) \<Longrightarrow>
     handleTranslate_start s = (s\<lparr>isLoading := True, error := None, translatedText := []\<rparr>, True)
     \<and> (outcome (translateText generateContent (inputText s) (sourceLang s) (targetLang s)) = Inl e
          \<longrightarrow> handleTranslate generateContent s
                = s\<lparr>isLoading := False, translatedText := [],
                    error := Some (js ''Failed to translate text. Please check the API key and try again.'')\<rparr>
              \<and> js ''Failed to translate text. Please check the API key and try again.'' \<noteq> [])
     \<and> isLoading (handleTranslate generateContent s) = False
     \<and> isLoading (handleTranslate_settle r s') = False
     \<and> (\<forall>e'. translatedText (handleTranslate_settle (Inl e') s') = translatedText s')"
proof -
  assume nb: "\<not> list_all isWhiteSpace (inputText s)"
  have st: "handleTranslate_start s
              = (s\<lparr>isLoading := True, error := None, translatedText := []\<rparr>, True)"
    using nb by (simp add: handleTranslate_start_def trim_empty_iff)
  have settle: "isLoading (handleTranslate_settle r' s'') = False" for r' s''
    by (simp add: handleTranslate_settle_def)
  have keep: "translatedText (handleTranslate_settle (Inl e') s') = translatedText s'" for e'
    by (simp add: handleTranslate_settle_def split: thrown.splits)
  have run: "handleTranslate generateContent s
               = handleTranslate_settle
                   (outcome (translateText generateContent (inputText s) (sourceLang s) (targetLang s)))
                   (s\<lparr>isLoading := True, error := None, translatedText := []\<rparr>)"
    by (simp add: handleTranslate_def st)
  have fail: "handleTranslate generateContent s
                = s\<lparr>isLoading := False, translatedText := [],
                    error := Some (js ''Failed to translate text. Please check the API key and try again.'')\<rparr>"
    if "outcome (translateText generateContent (inputText s) (sourceLang s) (targetLang s)) = Inl e"
    using that translateText_Inl [OF that]
    by (simp add: run handleTranslate_settle_def translate_failed_def)
  have ne: "js ''Failed to translate text. Please check the API key and try again.'' \<noteq> []"
    by (simp add: js_def)
  show ?thesis using st fail ne settle keep by (simp add: run)
qed

theorem handleTranslate_failure_witness:
  "handleTranslate (\<lambda>r. Rejects Non_Error)
       (initial_state\<lparr>inputText := js ''hello'', translatedText := js ''old'', error := Some (js ''e'')\<rparr>)
     = initial_state\<lparr>inputText := js ''hello'', translatedText := [],
         error := Some (js ''Failed to translate text. Please check the API key and try again.'')\<rparr>"
proof -
  let ?s = "initial_state\<lparr>inputText := js ''hello'', translatedText := js ''old'', error := Some (js ''e'')\<rparr>"
  have h: "\<not> list_all isWhiteSpace (inputText ?s)"
    by (simp add: js_def isWhiteSpace_def)
  have o: "outcome (translateText (\<lambda>r. Rejects Non_Error) (inputText ?s) (sourceLang ?s) (targetLang ?s))
             = Inl translate_failed"
    using h by (simp add: translateText_def trim_empty_iff Let_def)
  show ?thesis
    using handleTranslate_failure [OF h, of "\<lambda>r. Rejects Non_Error" translate_failed] o
    by (simp add: initial_state_def)
qed

text \<open>
  C5, as stated, fails: a file of 200 MB whose type is \<open>text/plain\<close> is not a PDF,
  yet the error set is not the type error (it is the size error: the size is checked
  first).
\<close>

theorem handleFileChange_rejected_counterexample:
  "file_type \<lparr>file_name = js ''notes.txt'', file_size = 200 * 1024 * 1024, file_type = js ''text/plain''\<rparr>
     \<noteq> js ''application/pdf''
   \<and> error (fst (handleFileChange
        (Some \<lparr>file_name = js ''notes.txt'', file_size = 200 * 1024 * 1024, file_type = js ''text/plain''\<rparr>)
        initial_state))
     \<noteq> Some (js ''Only PDF files are supported.'')"
  by (simp add: handleFileChange_def js_def)

text \<open>
  C5, amended: a file larger than 100 MB gets the size-limit error, whatever its type; a
  file within the limit whose type is not \<open>application/pdf\<close> gets the type error. In
  both cases the input text is left empty, no file name is set and no read of the file is
  started.
\<close>

theorem handleFileChange_rejected:
  "(100 * 1024 * 1024 < file_size file \<longrightarrow>
      handleFileChange (Some file) s
        = (s\<lparr>error := Some (js ''File size exceeds 100MB limit.''), fileName := None,
              inputText := [], translatedText := []\<rparr>, None))
   \<and> (file_size file \<le> 100 * 1024 * 1024 \<and> file_type file \<noteq> js ''application/pdf'' \<longrightarrow>
      handleFileChange (Some file) s
        = (s\<lparr>error := Some (js ''Only PDF files are supported.''), fileName := None,
              inputText := [], translatedText := []\<rparr>, None))"
  by (simp add: handleFileChange_def Let_def)

theorem handleFileChange_rejected_witness:
  "handleFileChange
     (Some \<lparr>file_name = js ''big.pdf'', file_size = 100 * 1024 * 1024 + 1, file_type = js ''application/pdf''\<rparr>)
     (initial_state\<lparr>inputText := js ''typed''\<rparr>)
     = (initial_state\<lparr>error := Some (js ''File size exceeds 100MB limit.'')\<rparr>, None)
   \<and> handleFileChange
     (Some \<lparr>file_name = js ''notes.txt'', file_size = 12, file_type = js ''text/plain''\<rparr>)
     (initial_state\<lparr>inputText := js ''typed''\<rparr>)
     = (initial_state\<lparr>error := Some (js ''Only PDF files are supported.'')\<rparr>, None)"
  using handleFileChange_rejected
          [of "\<lparr>file_name = js ''big.pdf'', file_size = 100 * 1024 * 1024 + 1, file_type = js ''application/pdf''\<rparr>"
              "initial_state\<lparr>inputText := js ''typed''\<rparr>"]
        handleFileChange_rejected
          [of "\<lparr>file_name = js ''notes.txt'', file_size = 12, file_type = js ''text/plain''\<rparr>"
              "initial_state\<lparr>inputText := js ''typed''\<rparr>"]
  by (simp add: initial_state_def js_def)

text \<open>
  C8, as stated, fails: with a translated text to copy, a clipboard write that is
  rejected leaves \<open>copySuccess\<close> false and schedules no timeout.
\<close>

theorem handleCopy_rejected_counterexample:
  "translatedText (initial_state\<lparr>translatedText := js ''Hello''\<rparr>) \<noteq> []
   \<and> copySuccess (fst (handleCopy clipboard_denied
                          (initial_state\<lparr>translatedText := js ''Hello''\<rparr>))) = False
   \<and> snd (handleCopy clipboard_denied (initial_state\<lparr>translatedText := js ''Hello''\<rparr>)) = None"
  by (simp add: handleCopy_def clipboard_denied_def initial_state_def js_def)

text \<open>
  C8, amended: when the translated text is not empty and the clipboard write succeeds,
  \<open>copySuccess\<close> becomes true and a timeout of 2000 ms is scheduled; \<open>copySuccess\<close>
  stays true through any sequence of the other callbacks (edit, mode switch, swap, start
  or settling of a translation, file selection, file reader), the callback of the timeout
  sets it to false and changes nothing else, and it then stays false through any such
  sequence.
\<close>

theorem handleCopy_feedback:
  "translatedText s \<noteq> [] \<Longrightarrow> writeText (translatedText s) = Write_resolves \<Longrightarrow>
     handleCopy writeText s = (s\<lparr>copySuccess := True\<rparr>, Some 2000)
     \<and> copySuccess (fold dispatch es (fst (handleCopy writeText s))) = True
     \<and> handleCopy_timeout (fold dispatch es (fst (handleCopy writeText s)))
         = (fold dispatch es (fst (handleCopy writeText s)))\<lparr>copySuccess := False\<rparr>
     \<and> copySuccess (fold dispatch es' (handleCopy_timeout s')) = False"
  by (simp add: handleCopy_def handleCopy_timeout_def fold_dispatch_copySuccess)

theorem handleCopy_feedback_witness:
  "copySuccess (fold dispatch [Translate_clicked, Translate_settled (Inr (js ''Salut''))]
       (fst (handleCopy (\<lambda>t. Write_resolves)
               (initial_state\<lparr>inputText := js ''Hi'', translatedText := js ''Hello''\<rparr>)))) = True
   \<and> snd (handleCopy (\<lambda>t. Write_resolves)
               (initial_state\<lparr>inputText := js ''Hi'', translatedText := js ''Hello''\<rparr>)) = Some 2000
   \<and> copySuccess (handleCopy_timeout
        (fold dispatch [Translate_clicked, Translate_settled (Inr (js ''Salut''))]
          (fst (handleCopy (\<lambda>t. Write_resolves)
               (initial_state\<lparr>inputText := js ''Hi'', translatedText := js ''Hello''\<rparr>))))) = False"
proof -
  let ?s = "initial_state\<lparr>inputText := js ''Hi'', translatedText := js ''Hello''\<rparr>"
  let ?es = "[Translate_clicked, Translate_settled (Inr (js ''Salut''))]"
  have h: "translatedText ?s \<noteq> []" by (simp add: js_def)
  have w: "(\<lambda>t::jsstring. Write_resolves) (translatedText ?s) = Write_resolves" by simp
  note T = handleCopy_feedback [of ?s "\<lambda>t. Write_resolves" ?es, OF h w]
  have a: "copySuccess (fold dispatch ?es (fst (handleCopy (\<lambda>t. Write_resolves) ?s))) = True"
    using T by (rule conjunct2 [THEN conjunct1])
  have b: "snd (handleCopy (\<lambda>t. Write_resolves) ?s) = Some 2000"
    using T [THEN conjunct1] by (simp only: snd_conv)
  have c: "copySuccess (handleCopy_timeout (fold dispatch ?es (fst (handleCopy (\<lambda>t. Write_resolves) ?s)))) = False"
    unfolding T [THEN conjunct2, THEN conjunct2, THEN conjunct1] by simp
  show ?thesis using a b c by (intro conjI)
qed

text \<open>
  C9: when a file is selected, \<open>handleFileChange\<close> behaves as if the error, the file
  name, the input text and the translated text had been cleared before its checks: its
  result does not depend on their earlier values, and the input text and the translated
  text are empty afterwards. So a file that is rejected (too large, or not a PDF) still
  erases the typed input and the earlier translation, sets an error and starts no read;
  an accepted file leaves the error cleared, sets the file name and \<open>isLoading\<close>, and
  is handed to the reader.
\<close>

theorem handleFileChange_clears_first:
  "handleFileChange (Some file) s
     = handleFileChange (Some file)
         (s\<lparr>error := None, fileName := None, inputText := [], translatedText := []\<rparr>)
   \<and> inputText (fst (handleFileChange (Some file) s)) = []
   \<and> translatedText (fst (handleFileChange (Some file) s)) = []
   \<and> (100 * 1024 * 1024 < file_size file \<or> file_type file \<noteq> js ''application/pdf'' \<longrightarrow>
        fileName (fst (handleFileChange (Some file) s)) = None
        \<and> error (fst (handleFileChange (Some file) s)) \<noteq> None
        \<and> snd (handleFileChange (Some file) s) = None)
   \<and> (file_size file \<le> 100 * 1024 * 1024 \<and> file_type file = js ''application/pdf'' \<longrightarrow>
        handleFileChange (Some file) s
          = (s\<lparr>error := None, fileName := Some (file_name file), inputText := [],
                translatedText := [], isLoading := True\<rparr>, Some file))"
  by (simp add: handleFileChange_def Let_def)

theorem handleFileChange_clears_first_witness:
  "(100 * 1024 * 1024 < file_size \<lparr>file_name = js ''notes.txt'', file_size = 12, file_type = js ''text/plain''\<rparr>
     \<or> file_type \<lparr>file_name = js ''notes.txt'', file_size = 12, file_type = js ''text/plain''\<rparr>
          \<noteq> js ''application/pdf'')
   \<and> inputText (fst (handleFileChange
         (Some \<lparr>file_name = js ''notes.txt'', file_size = 12, file_type = js ''text/plain''\<rparr>)
         (initial_state\<lparr>inputText := js ''typed'', translatedText := js ''done''\<rparr>))) = []
   \<and> translatedText (fst (handleFileChange
         (Some \<lparr>file_name = js ''notes.txt'', file_size = 12, file_type = js ''text/plain''\<rparr>)
         (initial_state\<lparr>inputText := js ''typed'', translatedText := js ''done''\<rparr>))) = []
   \<and> error (fst (handleFileChange
         (Some \<lparr>file_name = js ''notes.txt'', file_size = 12, file_type = js ''text/plain''\<rparr>)
         (initial_state\<lparr>inputText := js ''typed'', translatedText := js ''done''\<rparr>))) \<noteq> None
   \<and> snd (handleFileChange
         (Some \<lparr>file_name = js ''a.pdf'', file_size = 12, file_type = js ''application/pdf''\<rparr>)
         (initial_state\<lparr>inputText := js ''typed'', translatedText := js ''done''\<rparr>))
       = Some \<lparr>file_name = js ''a.pdf'', file_size = 12, file_type = js ''application/pdf''\<rparr>"
proof -
  let ?f = "\<lparr>file_name = js ''notes.txt'', file_size = 12, file_type = js ''text/plain''\<rparr>"
  let ?g = "\<lparr>file_name = js ''a.pdf'', file_size = 12, file_type = js ''application/pdf''\<rparr>"
  let ?s = "initial_state\<lparr>inputText := js ''typed'', translatedText := js ''done''\<rparr>"
  have t: "100 * 1024 * 1024 < file_size ?f \<or> file_type ?f \<noteq> js ''application/pdf''"
    by (simp add: js_def)
  have u: "file_size ?g \<le> 100 * 1024 * 1024 \<and> file_type ?g = js ''application/pdf''"
    by simp
  note F = handleFileChange_clears_first [of ?f ?s]
  note G = handleFileChange_clears_first [of ?g ?s]
  have "handleFileChange (Some ?g) ?s
          = (?s\<lparr>error := None, fileName := Some (file_name ?g), inputText := [],
                translatedText := [], isLoading := True\<rparr>, Some ?g)"
    using G [THEN conjunct2, THEN conjunct2, THEN conjunct2, THEN conjunct2] u by (rule mp)
  then have g: "snd (handleFileChange (Some ?g) ?s) = Some ?g"
    by (simp only: snd_conv)
  have f: "fileName (fst (handleFileChange (Some ?f) ?s)) = None
        \<and> error (fst (handleFileChange (Some ?f) ?s)) \<noteq> None
        \<and> snd (handleFileChange (Some ?f) ?s) = None"
    using F [THEN conjunct2, THEN conjunct2, THEN conjunct2, THEN conjunct1] t by (rule mp)
  show ?thesis
    using t g f F [THEN conjunct2, THEN conjunct1]
      F [THEN conjunct2, THEN conjunct2, THEN conjunct1]
    by (intro conjI) (erule conjE | assumption)+
qed

text \<open>
  C10: when the reader has a result, the PDF library is loaded and every page of the
  document gives its text items, \<open>reader_onload\<close> sets the input text to the trimmed
  concatenation of the page texts (the items of a page joined by a space, each page
  followed by \<open>"\n\n"\<close>), switches the input mode to \<open>'text'\<close> and ends the
  loading.
\<close>

theorem reader_onload_success:
  "getDocument buffer = Document (map Page itemss) \<Longrightarrow>
     reader_onload (Some getDocument) (Some buffer) s
       = s\<lparr>inputText := trim (concat (map (\<lambda>items. join (js '' '') items @ LF @ LF) itemss)),
           inputMode := Text, isLoading := False\<rparr>"
  by (simp add: reader_onload_def extractPages_all)

theorem reader_onload_success_witness:
  "reader_onload (Some (\<lambda>b. Document [Page [js ''Hello'', js ''world''], Page [js ''Bye'']]))
       (Some [0x25, 0x50]) (initial_state\<lparr>inputMode := File, isLoading := True\<rparr>)
     = initial_state\<lparr>inputText := js ''Hello world'' @ LF @ LF @ js ''Bye''\<rparr>"
proof -
  have t: "trim (concat (map (\<lambda>items. join (js '' '') items @ LF @ LF) [[js ''Hello'', js ''world''], [js ''Bye'']]))
            = js ''Hello world'' @ LF @ LF @ js ''Bye''"
    by (simp add: trim_def js_def LF_def isWhiteSpace_def)
  have d: "(\<lambda>b::8 word list. Document [Page [js ''Hello'', js ''world''], Page [js ''Bye'']]) [0x25, 0x50]
             = Document (map Page [[js ''Hello'', js ''world''], [js ''Bye'']])"
    by simp
  have r: "reader_onload (Some (\<lambda>b. Document [Page [js ''Hello'', js ''world''], Page [js ''Bye'']]))
       (Some [0x25, 0x50]) (initial_state\<lparr>inputMode := File, isLoading := True\<rparr>)
     = initial_state\<lparr>inputMode := File, isLoading := True\<rparr>
         \<lparr>inputText := trim (concat (map (\<lambda>items. join (js '' '') items @ LF @ LF)
                                         [[js ''Hello'', js ''world''], [js ''Bye'']])),
          inputMode := Text, isLoading := False\<rparr>"
    by (rule reader_onload_success) (rule d)
  show ?thesis
    unfolding r t by (simp add: initial_state_def)
qed

end
